theory Spec2Isabelle
  imports Complex_Main "HOL-Library.Sublist"
begin

section \<open>The MCP app server (server/src/server.ts)\<close>

text \<open>
  A shallow embedding of the relay server: the widget asset loader, the per-session
  server factory with its tool handlers, the session table and the HTTP router with the
  callbacks it installs on a transport. Everything the code takes from Node or from the
  protocol SDK (the file system, \<open>path.join\<close>, \<open>Number\<close>, the session id minted by the
  transport, the outcome of \<open>server.connect\<close> and of the transport's own
  \<open>handlePostMessage\<close>) is a parameter of the model. A JavaScript string is a
  \<open>string\<close>; \<open>length\<close> stands for \<open>.length\<close>.
\<close>

subsection \<open>Values and errors\<close>

text \<open>JSON-like values, for structured tool results and descriptor metadata.\<close>

datatype json =
    JNull
  | JBool bool
  | JNum int
  | JStr string
  | JArr "json list"
  | JObj "(string \<times> json) list"

text \<open>A thrown \<open>Error\<close> carries its message.\<close>

datatype js_error = Error string

fun message_of :: "js_error \<Rightarrow> string" where
  "message_of (Error m) = m"

subsection \<open>Constants\<close>

definition ssePath :: string where
  "ssePath = ''/mcp''"

definition postPath :: string where
  "postPath = ''/mcp/messages''"

subsection \<open>The file system and the widget asset loader\<close>

text \<open>
  A path of the file system names a regular file with its UTF-8 content, a directory, or
  nothing. \<open>existsSync\<close> is true of files and directories alike; \<open>readFileSync\<close> throws
  on a directory and on a missing path.
\<close>

datatype fs_node = File string | Dir

type_synonym file_system = "string \<rightharpoonup> fs_node"

definition existsSync :: "file_system \<Rightarrow> string \<Rightarrow> bool" where
  "existsSync fs p = (case fs p of None \<Rightarrow> False | Some _ \<Rightarrow> True)"

definition readFileSync :: "file_system \<Rightarrow> string \<Rightarrow> js_error + string" where
  "readFileSync fs p =
     (case fs p of
        None \<Rightarrow> Inl (Error (''ENOENT: no such file or directory, open '' @ p))
      | Some Dir \<Rightarrow> Inl (Error ''EISDIR: illegal operation on a directory, read'')
      | Some (File c) \<Rightarrow> Inr c)"

text \<open>
  The environment of the process: the directory of built components (computed from the
  module's own location), Node's \<open>path.join\<close>, and the file system.
\<close>

record env =
  ASSETS_DIR :: string
  path_join :: "string \<Rightarrow> string \<Rightarrow> string"
  fs :: file_system

record widget_assets =
  js :: string
  css :: string
  html :: string

definition build_command :: string where
  "build_command = ''cd web && pnpm run build''"

definition assets_dir_message :: "string \<Rightarrow> string" where
  "assets_dir_message dir =
     ''Widget assets not found. Expected directory '' @ dir @ ''. Run \"'' @ build_command
       @ ''\" before starting the server.''"

definition widget_js_message :: "string \<Rightarrow> string \<Rightarrow> string" where
  "widget_js_message componentName jsPath =
     ''Widget JS for \"'' @ componentName @ ''\" not found at '' @ jsPath @ ''. Run \"''
       @ build_command @ ''\" to generate the assets.''"

text \<open>
  The markup template, trimmed: it starts with the root element and ends with the script
  element, so \<open>trim\<close> removes exactly the template's own first and last line breaks.
\<close>

definition widget_html :: "string \<Rightarrow> string \<Rightarrow> string \<Rightarrow> string" where
  "widget_html componentName css_text js_text =
     ''<div id=\"'' @ componentName @ ''-root\"></div>'' @ [CHR 0x0A]
       @ (if css_text \<noteq> [] then ''<style>'' @ css_text @ ''</style>'' else [])
       @ [CHR 0x0A] @ ''<script type=\"module\">'' @ js_text @ ''</script>''"

definition loadWidgetAssets :: "env \<Rightarrow> string \<Rightarrow> js_error + widget_assets" where
  "loadWidgetAssets e componentName =
     (if \<not> existsSync (fs e) (ASSETS_DIR e) then
        Inl (Error (assets_dir_message (ASSETS_DIR e)))
      else
        let jsPath = path_join e (ASSETS_DIR e) (componentName @ ''.js'') in
        if \<not> existsSync (fs e) jsPath then
          Inl (Error (widget_js_message componentName jsPath))
        else
          (case readFileSync (fs e) jsPath of
             Inl err \<Rightarrow> Inl err
           | Inr js_text \<Rightarrow>
               let cssPath = path_join e (ASSETS_DIR e) (componentName @ ''.css'');
                   css_text = (case readFileSync (fs e) cssPath of
                                 Inl _ \<Rightarrow> []
                               | Inr c \<Rightarrow> c)
               in Inr \<lparr> js = js_text, css = css_text,
                         html = widget_html componentName css_text js_text \<rparr>))"

subsection \<open>The listening port\<close>

text \<open>
  A JavaScript number is not-a-number, an infinity, or a finite value. \<open>Number\<close> applied
  to a string is the language's own conversion and is a parameter here; \<open>Number(8000)\<close>
  is 8000.
\<close>

datatype js_number = NaN | Infinity bool | Finite rat

fun isFinite :: "js_number \<Rightarrow> bool" where
  "isFinite (Finite _) = True"
| "isFinite _ = False"

definition portEnv :: "(string \<Rightarrow> js_number) \<Rightarrow> string option \<Rightarrow> js_number" where
  "portEnv Number PORT = (case PORT of None \<Rightarrow> Finite 8000 | Some s \<Rightarrow> Number s)"

definition port :: "(string \<Rightarrow> js_number) \<Rightarrow> string option \<Rightarrow> js_number" where
  "port Number PORT =
     (if isFinite (portEnv Number PORT) then portEnv Number PORT else Finite 8000)"

subsection \<open>Tool handlers\<close>

text \<open>
  A tool result has the narrative \<open>content\<close>, the \<open>structuredContent\<close> object handed to
  the widget, and the \<open>_meta\<close> object.
\<close>

record CallToolResult =
  content :: "json list"
  structuredContent :: "(string \<times> json) list"
  result_meta :: "(string \<times> json) list"

record todo =
  todo_id :: string
  todo_title :: string
  isComplete :: bool
  todo_note :: string
  dueDate :: "string option"

definition todo_json :: "todo \<Rightarrow> json" where
  "todo_json t =
     JObj [(''id'', JStr (todo_id t)), (''title'', JStr (todo_title t)),
           (''isComplete'', JBool (isComplete t)), (''note'', JStr (todo_note t)),
           (''dueDate'', (case dueDate t of None \<Rightarrow> JNull | Some d \<Rightarrow> JStr d))]"

definition sampleTodos :: "todo list" where
  "sampleTodos =
     [\<lparr> todo_id = ''1'', todo_title = ''Learn about ChatGPT Apps SDK'', isComplete = False,
        todo_note = ''Study the window.openai API integration'', dueDate = Some ''2024-01-15'' \<rparr>,
      \<lparr> todo_id = ''2'', todo_title = ''Build an interactive widget'', isComplete = True,
        todo_note = ''Implement two-way communication with ChatGPT'',
        dueDate = Some ''2024-01-10'' \<rparr>,
      \<lparr> todo_id = ''3'', todo_title = ''Deploy to production'', isComplete = False,
        todo_note = ''Test with real ChatGPT integration'', dueDate = None \<rparr>]"

definition refreshedTodos :: "todo list" where
  "refreshedTodos =
     [\<lparr> todo_id = ''1'', todo_title = ''Learn about ChatGPT Apps SDK'', isComplete = False,
        todo_note = ''Study the window.openai API integration'', dueDate = Some ''2024-01-15'' \<rparr>,
      \<lparr> todo_id = ''2'', todo_title = ''Build an interactive widget'', isComplete = True,
        todo_note = ''Implement two-way communication with ChatGPT'',
        dueDate = Some ''2024-01-10'' \<rparr>,
      \<lparr> todo_id = ''3'', todo_title = ''Deploy to production'', isComplete = False,
        todo_note = ''Test with real ChatGPT integration'', dueDate = None \<rparr>,
      \<lparr> todo_id = ''4'', todo_title = ''Add new feature'', isComplete = False,
        todo_note = ''This todo was added during refresh'', dueDate = Some ''2024-01-20'' \<rparr>]"

text \<open>\<open>x || d\<close> on an optional string: the default replaces both a missing and an empty one.\<close>

definition or_default :: "string option \<Rightarrow> string \<Rightarrow> string" where
  "or_default x d = (case x of None \<Rightarrow> d | Some s \<Rightarrow> if s = [] then d else s)"

text \<open>A natural number in decimal, as a template literal prints a length.\<close>

fun string_of_nat :: "nat \<Rightarrow> string" where
  "string_of_nat n =
     (if n < 10 then [char_of (48 + n)]
      else string_of_nat (n div 10) @ [char_of (48 + n mod 10)])"

declare string_of_nat.simps [simp del]

definition text_content :: "string \<Rightarrow> json" where
  "text_content t = JObj [(''type'', JStr ''text''), (''text'', JStr t)]"

definition todo_list_json :: "string \<Rightarrow> todo list \<Rightarrow> json" where
  "todo_list_json list_id todos =
     JObj [(''id'', JStr list_id), (''title'', JStr ''My Tasks''),
           (''isCurrentlyOpen'', JBool True), (''todos'', JArr (map todo_json todos))]"

definition show_todo_handler :: "string \<Rightarrow> string option \<Rightarrow> CallToolResult" where
  "show_todo_handler message userId =
     \<lparr> content = [text_content (''Rendered a todo list! '' @ message)],
       structuredContent =
         [(''lists'', JArr [todo_list_json ''main-list'' sampleTodos]),
          (''message'', JStr message),
          (''userId'', JStr (or_default userId ''anonymous''))],
       result_meta =
         [(''messageLen'', JNum (int (length message))),
          (''totalTodos'', JNum (int (length sampleTodos))),
          (''completedTodos'', JNum (int (length (filter isComplete sampleTodos))))] \<rparr>"

text \<open>
  The second copy of the server in the repository registers only \<open>show-todo\<close>, with this
  shorter handler.
\<close>

definition show_todo_handler_minimal :: "string \<Rightarrow> CallToolResult" where
  "show_todo_handler_minimal message =
     \<lparr> content = [text_content ''Rendered a todo list!''],
       structuredContent = [(''message'', JStr message)],
       result_meta = [(''messageLen'', JNum (int (length message)))] \<rparr>"

text \<open>
  The other two handlers read the clock (\<open>new Date().toISOString()\<close>) twice; the two
  readings are parameters.
\<close>

definition refresh_todos_handler ::
  "string \<times> string \<Rightarrow> string option \<Rightarrow> string option \<Rightarrow> CallToolResult" where
  "refresh_todos_handler clock listId userId =
     \<lparr> content =
         [text_content (''Refreshed todo list data. Found ''
            @ string_of_nat (length refreshedTodos) @ '' todos.'')],
       structuredContent =
         [(''lists'', JArr [todo_list_json (or_default listId ''main-list'') refreshedTodos]),
          (''refreshedAt'', JStr (fst clock)),
          (''userId'', JStr (or_default userId ''anonymous''))],
       result_meta =
         [(''totalTodos'', JNum (int (length refreshedTodos))),
          (''refreshedAt'', JStr (snd clock))] \<rparr>"

text \<open>\<open>save-todo-state\<close> also writes a line to the console; the line is returned.\<close>

definition save_todo_state_handler ::
  "string \<times> string \<Rightarrow> json list \<Rightarrow> string option \<Rightarrow> string option
     \<Rightarrow> string \<times> CallToolResult" where
  "save_todo_state_handler clock todos listId userId =
     (''Saving '' @ string_of_nat (length todos) @ '' todos for user ''
        @ or_default userId ''anonymous'',
      \<lparr> content =
          [text_content (''Saved '' @ string_of_nat (length todos) @ '' todos successfully.'')],
        structuredContent =
          [(''success'', JBool True),
           (''savedTodos'', JNum (int (length todos))),
           (''listId'', JStr (or_default listId ''main-list'')),
           (''userId'', JStr (or_default userId ''anonymous'')),
           (''savedAt'', JStr (fst clock))],
        result_meta =
          [(''savedTodos'', JNum (int (length todos))),
           (''savedAt'', JStr (snd clock))] \<rparr>)"

subsection \<open>Input schemas\<close>

text \<open>
  The shapes the descriptors declare with zod. The SDK validates the raw arguments of a
  call against the tool's shape before it runs the handler; an object shape accepts
  unknown keys and drops them, and an optional field accepts only a missing key.
\<close>

datatype zod = ZString | ZBoolean | ZOptional zod | ZArray zod | ZObject "(string \<times> zod) list"

definition string_field :: "(string \<times> json) list \<Rightarrow> string \<Rightarrow> string option" where
  "string_field kvs k = (case map_of kvs k of Some (JStr s) \<Rightarrow> Some s | _ \<Rightarrow> None)"

definition boolean_field :: "(string \<times> json) list \<Rightarrow> string \<Rightarrow> bool option" where
  "boolean_field kvs k = (case map_of kvs k of Some (JBool b) \<Rightarrow> Some b | _ \<Rightarrow> None)"

text \<open>An optional string: \<open>None\<close> when the value is not a string, else the optional value.\<close>

definition optional_string_field ::
  "(string \<times> json) list \<Rightarrow> string \<Rightarrow> string option option" where
  "optional_string_field kvs k =
     (case map_of kvs k of
        None \<Rightarrow> Some None
      | Some (JStr s) \<Rightarrow> Some (Some s)
      | Some _ \<Rightarrow> None)"

fun valid_todo_item :: "json \<Rightarrow> bool" where
  "valid_todo_item (JObj kvs) =
     (string_field kvs ''id'' \<noteq> None \<and> string_field kvs ''title'' \<noteq> None
      \<and> boolean_field kvs ''isComplete'' \<noteq> None
      \<and> optional_string_field kvs ''note'' \<noteq> None
      \<and> optional_string_field kvs ''dueDate'' \<noteq> None)"
| "valid_todo_item _ = False"

definition invalid_arguments :: "string \<Rightarrow> js_error" where
  "invalid_arguments name = Error (''Invalid arguments for tool '' @ name)"

type_synonym tool_callback =
  "string \<times> string \<Rightarrow> json \<Rightarrow> js_error + (string list \<times> CallToolResult)"

text \<open>Each registered callback: the validation of its shape, then the handler.\<close>

fun show_todo_callback :: tool_callback where
  "show_todo_callback clock (JObj kvs) =
     (case (string_field kvs ''message'', optional_string_field kvs ''userId'') of
        (Some message, Some userId) \<Rightarrow> Inr ([], show_todo_handler message userId)
      | _ \<Rightarrow> Inl (invalid_arguments ''show-todo''))"
| "show_todo_callback clock _ = Inl (invalid_arguments ''show-todo'')"

fun refresh_todos_callback :: tool_callback where
  "refresh_todos_callback clock (JObj kvs) =
     (case (optional_string_field kvs ''listId'', optional_string_field kvs ''userId'') of
        (Some listId, Some userId) \<Rightarrow> Inr ([], refresh_todos_handler clock listId userId)
      | _ \<Rightarrow> Inl (invalid_arguments ''refresh-todos''))"
| "refresh_todos_callback clock _ = Inl (invalid_arguments ''refresh-todos'')"

fun save_todo_state_callback :: tool_callback where
  "save_todo_state_callback clock (JObj kvs) =
     (case (map_of kvs ''todos'', optional_string_field kvs ''listId'',
            optional_string_field kvs ''userId'') of
        (Some (JArr todos), Some listId, Some userId) \<Rightarrow>
          if list_all valid_todo_item todos then
            (case save_todo_state_handler clock todos listId userId of
               (line, r) \<Rightarrow> Inr ([line], r))
          else Inl (invalid_arguments ''save-todo-state'')
      | _ \<Rightarrow> Inl (invalid_arguments ''save-todo-state''))"
| "save_todo_state_callback clock _ = Inl (invalid_arguments ''save-todo-state'')"

subsection \<open>The per-session server\<close>

text \<open>
  What the SDK's \<open>McpServer\<close> keeps of the registrations: resources by URI and tools by
  name, in registration order. Registering a URI or a name that is already present is
  refused with an error.
\<close>

record RegisteredResource =
  resource_name :: string
  resource_metadata :: "(string \<times> json) list"
  readCallback :: "unit \<Rightarrow> json"

record RegisteredTool =
  title :: string
  description :: string
  inputSchema :: "(string \<times> zod \<times> string) list"
  tool_meta :: "(string \<times> json) list"
  callback :: tool_callback

record McpServer =
  serverInfo :: "string \<times> string"
  registeredResources :: "(string \<times> RegisteredResource) list"
  registeredTools :: "(string \<times> RegisteredTool) list"

definition new_McpServer :: "string \<Rightarrow> string \<Rightarrow> McpServer" where
  "new_McpServer name version =
     \<lparr> serverInfo = (name, version), registeredResources = [], registeredTools = [] \<rparr>"

definition registerResource ::
  "string \<Rightarrow> string \<Rightarrow> (string \<times> json) list \<Rightarrow> (unit \<Rightarrow> json) \<Rightarrow> McpServer
     \<Rightarrow> js_error + McpServer" where
  "registerResource name uri metadata cb srv =
     (if map_of (registeredResources srv) uri \<noteq> None then
        Inl (Error (''Resource '' @ uri @ '' is already registered''))
      else
        Inr (srv\<lparr> registeredResources := registeredResources srv @
               [(uri, \<lparr> resource_name = name, resource_metadata = metadata,
                        readCallback = cb \<rparr>)] \<rparr>))"

definition registerTool :: "string \<Rightarrow> RegisteredTool \<Rightarrow> McpServer \<Rightarrow> js_error + McpServer" where
  "registerTool name tool srv =
     (if map_of (registeredTools srv) name \<noteq> None then
        Inl (Error (''Tool '' @ name @ '' is already registered''))
      else Inr (srv\<lparr> registeredTools := registeredTools srv @ [(name, tool)] \<rparr>))"

text \<open>
  Invoking a tool of a server by name, as the SDK does for a \<open>tools/call\<close> message: an
  unknown name is an error, otherwise the registered callback runs on the raw arguments.
\<close>

definition callTool :: "McpServer \<Rightarrow> string \<Rightarrow> tool_callback" where
  "callTool srv name clock args =
     (case map_of (registeredTools srv) name of
        None \<Rightarrow> Inl (Error (''Tool '' @ name @ '' not found''))
      | Some tool \<Rightarrow> callback tool clock args)"

definition todoUri :: string where
  "todoUri = ''ui://widget/todo.html''"

definition todo_widget_contents :: "widget_assets \<Rightarrow> json" where
  "todo_widget_contents todoAssets =
     JObj [(''contents'', JArr
       [JObj [(''uri'', JStr todoUri),
              (''mimeType'', JStr ''text/html+skybridge''),
              (''text'', JStr (html todoAssets)),
              (''_meta'', JObj
                 [(''openai/widgetDescription'', JStr ''A todo list widget''),
                  (''openai/widgetPrefersBorder'', JBool True),
                  (''openai/widgetDomain'', JStr ''https://chatgpt.com''),
                  (''openai/widgetCSP'', JObj
                     [(''connect_domains'', JArr [JStr ''https://chatgpt.com'']),
                      (''resource_domains'', JArr [JStr ''https://*.oaistatic.com''])])])]])]"

definition show_todo_tool :: RegisteredTool where
  "show_todo_tool =
     \<lparr> title = ''Show Todo List'',
       description = ''Display a todo list widget'',
       inputSchema =
         [(''message'', ZString, ''A message to display with the widget.''),
          (''userId'', ZOptional ZString, ''Optional user ID for personalization'')],
       tool_meta =
         [(''openai/outputTemplate'', JStr todoUri),
          (''openai/toolInvocation/invoking'', JStr ''Creating a todo list''),
          (''openai/toolInvocation/invoked'', JStr ''Todo list displayed'')],
       callback = show_todo_callback \<rparr>"

definition refresh_todos_tool :: RegisteredTool where
  "refresh_todos_tool =
     \<lparr> title = ''Refresh Todo List'',
       description = ''Refresh the todo list data from the server'',
       inputSchema =
         [(''listId'', ZOptional ZString, ''ID of the list to refresh''),
          (''userId'', ZOptional ZString, ''User ID for personalization'')],
       tool_meta =
         [(''openai/toolInvocation/invoking'', JStr ''Refreshing todo list data''),
          (''openai/toolInvocation/invoked'', JStr ''Todo list refreshed'')],
       callback = refresh_todos_callback \<rparr>"

definition save_todo_state_tool :: RegisteredTool where
  "save_todo_state_tool =
     \<lparr> title = ''Save Todo State'',
       description = ''Save the current state of the todo list'',
       inputSchema =
         [(''todos'',
           ZArray (ZObject [(''id'', ZString), (''title'', ZString), (''isComplete'', ZBoolean),
                            (''note'', ZOptional ZString), (''dueDate'', ZOptional ZString)]),
           ''Array of todo items to save''),
          (''listId'', ZOptional ZString, ''ID of the list being saved''),
          (''userId'', ZOptional ZString, ''User ID for personalization'')],
       tool_meta =
         [(''openai/toolInvocation/invoking'', JStr ''Saving todo list state''),
          (''openai/toolInvocation/invoked'', JStr ''Todo list state saved'')],
       callback = save_todo_state_callback \<rparr>"

text \<open>
  Server objects live in a store; a handle is an index into it, and \<open>new McpServer\<close>
  allocates the next index. \<open>createServerInstance\<close> returns the handle of the new
  object, or the error thrown on the way, together with the store as it has become: the
  object allocated before a throw stays in the store, unreachable.
\<close>

type_synonym server_store = "McpServer list"

definition createServerInstance ::
  "env \<Rightarrow> server_store \<Rightarrow> (js_error + nat) \<times> server_store" where
  "createServerInstance e store =
     (let server = length store;
          store0 = store @ [new_McpServer ''mcp-app-server'' ''1.0.0'']
      in case loadWidgetAssets e ''todo'' of
           Inl err \<Rightarrow> (Inl err, store0)
         | Inr todoAssets \<Rightarrow>
       (case registerResource ''todo-widget'' todoUri []
               (\<lambda>_. todo_widget_contents todoAssets) (store0 ! server) of
           Inl err \<Rightarrow> (Inl err, store0)
         | Inr s1 \<Rightarrow>
       (case registerTool ''show-todo'' show_todo_tool s1 of
           Inl err \<Rightarrow> (Inl err, store0[server := s1])
         | Inr s2 \<Rightarrow>
       (case registerTool ''refresh-todos'' refresh_todos_tool s2 of
           Inl err \<Rightarrow> (Inl err, store0[server := s2])
         | Inr s3 \<Rightarrow>
       (case registerTool ''save-todo-state'' save_todo_state_tool s3 of
           Inl err \<Rightarrow> (Inl err, store0[server := s3])
         | Inr s4 \<Rightarrow> (Inr server, store0[server := s4]))))))"

subsection \<open>The session table\<close>

record SSEServerTransport =
  endpoint :: string
  sessionId :: string

record SessionRecord =
  server :: nat
  transport :: SSEServerTransport

text \<open>
  \<open>sessions\<close> is a \<open>Map\<close> from session id to record, used through \<open>set\<close>, \<open>get\<close> and
  \<open>delete\<close>; \<open>delete\<close> answers whether the key was present and never throws.
\<close>

type_synonym session_table = "string \<rightharpoonup> SessionRecord"

definition Map_set :: "session_table \<Rightarrow> string \<Rightarrow> SessionRecord \<Rightarrow> session_table" where
  "Map_set tbl k v = tbl(k \<mapsto> v)"

definition Map_get :: "session_table \<Rightarrow> string \<Rightarrow> SessionRecord option" where
  "Map_get tbl k = tbl k"

definition Map_delete :: "session_table \<Rightarrow> string \<Rightarrow> bool \<times> session_table" where
  "Map_delete tbl k = (tbl k \<noteq> None, tbl(k := None))"

text \<open>Sequences of table operations, to state what holds between two of them.\<close>

datatype table_op = Put string SessionRecord | Remove string

fun op_key :: "table_op \<Rightarrow> string" where
  "op_key (Put k _) = k"
| "op_key (Remove k) = k"

fun apply_table_op :: "session_table \<Rightarrow> table_op \<Rightarrow> session_table" where
  "apply_table_op tbl (Put k v) = Map_set tbl k v"
| "apply_table_op tbl (Remove k) = snd (Map_delete tbl k)"

subsection \<open>Requests and responses\<close>

text \<open>
  The part of Node's \<open>ServerResponse\<close> the router uses. \<open>setHeader\<close> and \<open>writeHead\<close>
  throw once the headers are sent; \<open>writeHead\<close> sends them.
\<close>

record response =
  statusCode :: nat
  headers :: "string \<rightharpoonup> string"
  headersSent :: bool
  body :: string
  finished :: bool

definition fresh_response :: response where
  "fresh_response =
     \<lparr> statusCode = 200, headers = Map.empty, headersSent = False, body = [],
       finished = False \<rparr>"

definition headers_sent_error :: js_error where
  "headers_sent_error = Error ''ERR_HTTP_HEADERS_SENT''"

definition setHeader :: "string \<Rightarrow> string \<Rightarrow> response \<Rightarrow> js_error + response" where
  "setHeader name v res =
     (if headersSent res then Inl headers_sent_error
      else Inr (res\<lparr> headers := (headers res)(name \<mapsto> v) \<rparr>))"

definition writeHead :: "nat \<Rightarrow> (string \<times> string) list \<Rightarrow> response \<Rightarrow> js_error + response" where
  "writeHead code hs res =
     (if headersSent res then Inl headers_sent_error
      else Inr (res\<lparr> statusCode := code, headers := headers res ++ map_of hs,
                     headersSent := True \<rparr>))"

definition end_response :: "string \<Rightarrow> response \<Rightarrow> response" where
  "end_response chunk res =
     (if finished res then res else res\<lparr> body := body res @ chunk, finished := True \<rparr>)"

text \<open>
  A request with its URL already parsed by \<open>new URL\<close>; \<open>url = None\<close> is a request without
  a URL. \<open>searchParams.get\<close> answers the first value under the name.
\<close>

record parsed_url =
  pathname :: string
  searchParams :: "(string \<times> string) list"

record request =
  http_method :: string
  url :: "parsed_url option"
  payload :: string

definition searchParams_get :: "parsed_url \<Rightarrow> string \<Rightarrow> string option" where
  "searchParams_get u name = map_of (searchParams u) name"

subsection \<open>The router\<close>

text \<open>
  The state of the process: the session table, the store of server objects and the lines
  written to the console.
\<close>

record world =
  sessions :: session_table
  servers :: server_store
  console :: "string list"

definition initial_world :: world where
  "initial_world = \<lparr> sessions = Map.empty, servers = [], console = [] \<rparr>"

text \<open>
  What the SDK decides during one request: the id of the transport just constructed, what
  \<open>server.connect\<close> does to the response and whether it throws, and the same for the
  transport's \<open>handlePostMessage\<close> on a session.
\<close>

record sdk =
  newSessionId :: string
  connect :: "response \<Rightarrow> js_error option \<times> response"
  transport_handlePostMessage ::
    "SessionRecord \<Rightarrow> request \<Rightarrow> response \<Rightarrow> js_error option \<times> response"

text \<open>
  A handler yields the error it threw, if any, the response as the handler left it, and
  the new state.
\<close>

type_synonym outcome = "js_error option \<times> response \<times> world"

text \<open>\<open>res.writeHead(code).end(chunk)\<close>.\<close>

definition writeHead_end :: "nat \<Rightarrow> string \<Rightarrow> response \<Rightarrow> world \<Rightarrow> outcome" where
  "writeHead_end code chunk res w =
     (case writeHead code [] res of
        Inl err \<Rightarrow> (Some err, res, w)
      | Inr res1 \<Rightarrow> (None, end_response chunk res1, w))"

text \<open>
  The two callbacks \<open>handleSseRequest\<close> installs on the transport of session \<open>sid\<close>, as
  \<open>server.ts\<close> has them.
\<close>

definition onclose :: "string \<Rightarrow> world \<Rightarrow> world" where
  "onclose sid w = w\<lparr> sessions := snd (Map_delete (sessions w) sid) \<rparr>"

text \<open>
  The close callback of the second copy of the server: after the same \<open>delete\<close> it awaits
  \<open>server.close()\<close>. That call belongs to the SDK and is a parameter. It receives the
  state the \<open>delete\<close> has left, and either comes back, normally or with a thrown error,
  with a new state, or never comes back to the callback, which is \<open>None\<close>; \<open>server.ts\<close>
  notes that the call runs into \<open>transport.close()\<close> in a circle.
\<close>

definition onclose_closing_server ::
  "(world \<Rightarrow> (js_error option \<times> world) option) \<Rightarrow> string \<Rightarrow> world
     \<Rightarrow> (js_error option \<times> world) option" where
  "onclose_closing_server server_close sid w =
     server_close (w\<lparr> sessions := snd (Map_delete (sessions w) sid) \<rparr>)"

definition onerror :: "js_error \<Rightarrow> world \<Rightarrow> world" where
  "onerror err w = w\<lparr> console := console w @ [''SSE transport error '' @ message_of err] \<rparr>"

definition handleSseRequest :: "env \<Rightarrow> sdk \<Rightarrow> response \<Rightarrow> world \<Rightarrow> outcome" where
  "handleSseRequest e k res w =
     (case setHeader ''Access-Control-Allow-Origin'' ''*'' res of
        Inl err \<Rightarrow> (Some err, res, w)
      | Inr res1 \<Rightarrow>
     (case createServerInstance e (servers w) of
        (Inl err, store) \<Rightarrow> (Some err, res1, w\<lparr> servers := store \<rparr>)
      | (Inr srv, store) \<Rightarrow>
          let tr = \<lparr> endpoint = postPath, sessionId = newSessionId k \<rparr>;
              sid = sessionId tr;
              w1 = w\<lparr> servers := store,
                      sessions := Map_set (sessions w) sid \<lparr> server = srv, transport = tr \<rparr> \<rparr>
          in (case connect k res1 of
                (None, res2) \<Rightarrow> (None, res2, w1)
              | (Some err, res2) \<Rightarrow>
                  let w2 = w1\<lparr> sessions := snd (Map_delete (sessions w1) sid),
                               console := console w1 @
                                 [''Failed to start SSE session '' @ message_of err] \<rparr>
                  in if \<not> headersSent res2
                     then writeHead_end 500 ''Failed to establish SSE connection'' res2 w2
                     else (None, res2, w2))))"

definition handlePostMessage :: "sdk \<Rightarrow> request \<Rightarrow> response \<Rightarrow> parsed_url \<Rightarrow> world \<Rightarrow> outcome" where
  "handlePostMessage k req res u w =
     (case setHeader ''Access-Control-Allow-Origin'' ''*'' res of
        Inl err \<Rightarrow> (Some err, res, w)
      | Inr res1 \<Rightarrow>
     (case setHeader ''Access-Control-Allow-Headers'' ''content-type'' res1 of
        Inl err \<Rightarrow> (Some err, res1, w)
      | Inr res2 \<Rightarrow>
     (case searchParams_get u ''sessionId'' of
        None \<Rightarrow> writeHead_end 400 ''Missing sessionId query parameter'' res2 w
      | Some sid \<Rightarrow>
          if sid = [] then writeHead_end 400 ''Missing sessionId query parameter'' res2 w
          else
            (case Map_get (sessions w) sid of
               None \<Rightarrow> writeHead_end 404 ''Unknown session'' res2 w
             | Some session \<Rightarrow>
                 (case transport_handlePostMessage k session req res2 of
                    (None, res3) \<Rightarrow> (None, res3, w)
                  | (Some err, res3) \<Rightarrow>
                      let w1 = w\<lparr> console := console w @
                                    [''Failed to process message '' @ message_of err] \<rparr>
                      in if \<not> headersSent res3
                         then writeHead_end 500 ''Failed to process message'' res3 w1
                         else (None, res3, w1))))))"

text \<open>The request listener of the HTTP server, on the fresh response of each request.\<close>

definition requestListener :: "env \<Rightarrow> sdk \<Rightarrow> request \<Rightarrow> world \<Rightarrow> outcome" where
  "requestListener e k req w =
     (let res = fresh_response in
      case url req of
        None \<Rightarrow> writeHead_end 400 ''Missing URL'' res w
      | Some u \<Rightarrow>
          if http_method req = ''OPTIONS'' \<and> (pathname u = ssePath \<or> pathname u = postPath) then
            (case writeHead 204
                    [(''Access-Control-Allow-Origin'', ''*''),
                     (''Access-Control-Allow-Methods'', ''GET, POST, OPTIONS''),
                     (''Access-Control-Allow-Headers'', ''content-type'')] res of
               Inl err \<Rightarrow> (Some err, res, w)
             | Inr res1 \<Rightarrow> (None, end_response [] res1, w))
          else if http_method req = ''GET'' \<and> pathname u = ssePath then handleSseRequest e k res w
          else if http_method req = ''POST'' \<and> pathname u = postPath then
            handlePostMessage k req res u w
          else writeHead_end 404 ''Not Found'' res w)"

text \<open>
  What happens to the process, one event at a time: a request is served, or a transport
  fires its close or its error callback.
\<close>

datatype event =
    Request sdk request
  | TransportClose string
  | TransportError js_error

fun step :: "env \<Rightarrow> world \<Rightarrow> event \<Rightarrow> world" where
  "step e w (Request k req) = snd (snd (requestListener e k req w))"
| "step e w (TransportClose sid) = onclose sid w"
| "step e w (TransportError err) = onerror err w"

definition run :: "env \<Rightarrow> event list \<Rightarrow> world" where
  "run e evs = foldl (step e) initial_world evs"

text \<open>Every server handle in the table points into the store.\<close>

definition handles_allocated :: "world \<Rightarrow> bool" where
  "handles_allocated w =
     (\<forall>sid s. sessions w sid = Some s \<longrightarrow> server s < length (servers w))"

subsection \<open>Concrete inputs\<close>

text \<open>
  A deployment under \<open>/app\<close>, with a file system that has no build output, one that has
  only the output directory, one that has the todo bundle, and one where the bundle's path
  is a directory; a join of a directory and a
  plain file name; a conversion to numbers that knows two strings.
\<close>

definition example_join :: "string \<Rightarrow> string \<Rightarrow> string" where
  "example_join dir name = dir @ ''/'' @ name"

definition example_env :: "file_system \<Rightarrow> env" where
  "example_env files =
     \<lparr> ASSETS_DIR = ''/app/web/dist'', path_join = example_join, fs = files \<rparr>"

definition unbuilt_fs :: file_system where
  "unbuilt_fs = Map.empty"

definition empty_dist_fs :: file_system where
  "empty_dist_fs = [''/app/web/dist'' \<mapsto> Dir]"

definition built_fs :: file_system where
  "built_fs = [''/app/web/dist'' \<mapsto> Dir, ''/app/web/dist/todo.js'' \<mapsto> File ''render()'']"

definition directory_bundle_fs :: file_system where
  "directory_bundle_fs = [''/app/web/dist'' \<mapsto> Dir, ''/app/web/dist/todo.js'' \<mapsto> Dir]"

definition example_Number :: "string \<Rightarrow> js_number" where
  "example_Number s =
     (if s = ''3000'' then Finite 3000
      else if s = ''Infinity'' then Infinity True
      else NaN)"

text \<open>
  An SDK whose \<open>connect\<close> opens the stream (status 200, headers sent), and one whose
  \<open>connect\<close> throws before it has written anything. Both forward a posted message with
  status 202.
\<close>

definition accepting_post :: "SessionRecord \<Rightarrow> request \<Rightarrow> response \<Rightarrow> js_error option \<times> response" where
  "accepting_post session req res =
     (None, end_response ''Accepted'' (res\<lparr> statusCode := 202, headersSent := True \<rparr>))"

definition connecting_sdk :: "string \<Rightarrow> sdk" where
  "connecting_sdk sid =
     \<lparr> newSessionId = sid,
       connect = (\<lambda>res. (None, res\<lparr> statusCode := 200, headersSent := True \<rparr>)),
       transport_handlePostMessage = accepting_post \<rparr>"

definition failing_sdk :: "string \<Rightarrow> sdk" where
  "failing_sdk sid =
     \<lparr> newSessionId = sid,
       connect = (\<lambda>res. (Some (Error ''connect failed''), res)),
       transport_handlePostMessage = accepting_post \<rparr>"

definition get_stream :: request where
  "get_stream = \<lparr> http_method = ''GET'', url = Some \<lparr> pathname = ssePath, searchParams = [] \<rparr>,
                   payload = [] \<rparr>"

definition post_message :: "(string \<times> string) list \<Rightarrow> request" where
  "post_message query =
     \<lparr> http_method = ''POST'', url = Some \<lparr> pathname = postPath, searchParams = query \<rparr>,
       payload = ''{}'' \<rparr>"

definition example_session :: "string \<Rightarrow> SessionRecord" where
  "example_session sid =
     \<lparr> server = 0, transport = \<lparr> endpoint = postPath, sessionId = sid \<rparr> \<rparr>"

section \<open>Properties\<close>

subsection \<open>The session table\<close>

text \<open>
  Operations on other keys leave the entry under a key as it is.
\<close>

lemma foldl_apply_untouched:
  "\<forall>op \<in> set ops. op_key op \<noteq> k \<Longrightarrow> foldl apply_table_op tbl ops k = tbl k"
proof (induction ops arbitrary: tbl)
  case Nil
  then show ?case by simp
next
  case (Cons a ops)
  then have "foldl apply_table_op (apply_table_op tbl a) ops k = apply_table_op tbl a k"
    by simp
  moreover from Cons.prems have "apply_table_op tbl a k = tbl k"
    by (cases a) (auto simp add: Map_set_def Map_delete_def)
  ultimately show ?case by simp
qed

text \<open>
  C4. After \<open>set\<close> of a record under an id, \<open>get\<close> of the id answers that record,
  whatever the table held before, and still does after any sequence of \<open>set\<close> and
  \<open>delete\<close> on other ids; a second \<open>set\<close> under the id overwrites the record, and a
  \<open>delete\<close> of the id removes it.
\<close>

theorem session_table_put_get:
  "Map_get (Map_set tbl k s) k = Some s
   \<and> ((\<forall>op \<in> set ops. op_key op \<noteq> k) \<longrightarrow>
        Map_get (foldl apply_table_op (Map_set tbl k s) ops) k = Some s)
   \<and> Map_get (Map_set (Map_set tbl k s) k s') k = Some s'
   \<and> Map_get (snd (Map_delete (Map_set tbl k s) k)) k = None"
  by (simp add: Map_get_def foldl_apply_untouched) (simp add: Map_set_def Map_delete_def)

theorem session_table_put_get_witness:
  "op_key (Put ''S2'' (example_session ''S2'')) \<noteq> ''S1'' \<and> op_key (Remove ''S3'') \<noteq> ''S1''
   \<and> Map_get (foldl apply_table_op (Map_set Map.empty ''S1'' (example_session ''S1''))
        [Put ''S2'' (example_session ''S2''), Remove ''S3'']) ''S1''
      = Some (example_session ''S1'')"
  using session_table_put_get [of Map.empty "''S1''" "example_session ''S1''"
      "[Put ''S2'' (example_session ''S2''), Remove ''S3'']"]
  by simp

text \<open>
  C5. \<open>delete\<close> of an absent id answers \<open>false\<close> and leaves the table unchanged; in
  particular a second \<open>delete\<close> right after a first one does so.
\<close>

theorem session_table_remove_idempotent:
  "(tbl k = None \<longrightarrow> Map_delete tbl k = (False, tbl))
   \<and> Map_delete (snd (Map_delete tbl k)) k = (False, snd (Map_delete tbl k))"
  by (auto simp add: Map_delete_def)

theorem session_table_remove_idempotent_witness:
  "(Map.empty :: session_table) ''S1'' = None
   \<and> Map_delete Map.empty ''S1'' = (False, Map.empty)
   \<and> Map_delete [''S1'' \<mapsto> example_session ''S1''] ''S1'' = (True, Map.empty)
   \<and> Map_delete (snd (Map_delete [''S1'' \<mapsto> example_session ''S1''] ''S1'')) ''S1''
       = (False, Map.empty)"
  using session_table_remove_idempotent [of Map.empty "''S1''"]
    session_table_remove_idempotent [of "[''S1'' \<mapsto> example_session ''S1'']" "''S1''"]
  by (simp add: Map_delete_def)

subsection \<open>The asset loader and the port\<close>

lemma loadWidgetAssets_file:
  assumes "existsSync (fs e) (ASSETS_DIR e)"
    and "fs e (path_join e (ASSETS_DIR e) (c @ ''.js'')) = Some (File src)"
  shows "\<exists>a. loadWidgetAssets e c = Inr a \<and> js a = src \<and> html a = widget_html c (css a) src"
  using assms
  by (simp add: loadWidgetAssets_def existsSync_def readFileSync_def Let_def)

lemma built_assets:
  "loadWidgetAssets (example_env built_fs) ''todo'' =
     Inr \<lparr> js = ''render()'', css = [], html = widget_html ''todo'' [] ''render()'' \<rparr>"
  by (simp add: example_env_def example_join_def built_fs_def existsSync_def
      loadWidgetAssets_def readFileSync_def)

text \<open>
  C8, as stated, fails when the bundle's path exists and is not a regular file: the
  loader's own checks pass, and reading the path throws an error that names neither the
  path nor the build command.
\<close>

theorem loadWidgetAssets_directory_bundle_counterexample:
  "existsSync (fs (example_env directory_bundle_fs)) (ASSETS_DIR (example_env directory_bundle_fs))
   \<and> existsSync (fs (example_env directory_bundle_fs)) ''/app/web/dist/todo.js''
   \<and> loadWidgetAssets (example_env directory_bundle_fs) ''todo'' =
       Inl (Error ''EISDIR: illegal operation on a directory, read'')
   \<and> \<not> sublist ''/app/web/dist/todo.js'' ''EISDIR: illegal operation on a directory, read''
   \<and> \<not> sublist build_command ''EISDIR: illegal operation on a directory, read''"
proof -
  have "\<not> sublist ''/app/web/dist/todo.js'' ''EISDIR: illegal operation on a directory, read''"
    by (simp add: sublist_Cons_right)
  moreover have "\<not> sublist build_command ''EISDIR: illegal operation on a directory, read''"
    unfolding build_command_def by (simp add: sublist_Cons_right)
  ultimately show ?thesis
    by (simp add: example_env_def example_join_def directory_bundle_fs_def existsSync_def
        loadWidgetAssets_def readFileSync_def)
qed

text \<open>
  C8, amended. For every component name: when the asset directory is missing, the loader fails
  with a message that names the expected directory and the build command; when the
  directory exists and the component's JS bundle is missing, it fails with a message that
  names the component, the expected bundle path and the build command; when the directory
  exists and the bundle is a regular file, it succeeds with that file's content and the
  markup built from it.
\<close>

theorem loadWidgetAssets_diagnostics:
  "(\<not> existsSync (fs e) (ASSETS_DIR e) \<longrightarrow>
      (\<exists>m. loadWidgetAssets e c = Inl (Error m) \<and> m = assets_dir_message (ASSETS_DIR e)
         \<and> sublist (ASSETS_DIR e) m \<and> sublist build_command m))
   \<and> (existsSync (fs e) (ASSETS_DIR e)
        \<and> \<not> existsSync (fs e) (path_join e (ASSETS_DIR e) (c @ ''.js'')) \<longrightarrow>
      (\<exists>m. loadWidgetAssets e c = Inl (Error m)
         \<and> m = widget_js_message c (path_join e (ASSETS_DIR e) (c @ ''.js''))
         \<and> sublist (path_join e (ASSETS_DIR e) (c @ ''.js'')) m \<and> sublist build_command m))
   \<and> (existsSync (fs e) (ASSETS_DIR e)
        \<and> fs e (path_join e (ASSETS_DIR e) (c @ ''.js'')) = Some (File src) \<longrightarrow>
      (\<exists>a. loadWidgetAssets e c = Inr a \<and> js a = src
         \<and> html a = widget_html c (css a) src))"
proof (intro conjI impI)
  assume "\<not> existsSync (fs e) (ASSETS_DIR e)"
  then have "loadWidgetAssets e c = Inl (Error (assets_dir_message (ASSETS_DIR e)))"
    by (simp add: loadWidgetAssets_def)
  moreover have "sublist (ASSETS_DIR e) (assets_dir_message (ASSETS_DIR e))"
    unfolding assets_dir_message_def by (rule sublist_appendI)
  moreover have "sublist build_command (assets_dir_message (ASSETS_DIR e))"
    unfolding assets_dir_message_def
    by (metis append.assoc sublist_appendI)
  ultimately show "\<exists>m. loadWidgetAssets e c = Inl (Error m)
      \<and> m = assets_dir_message (ASSETS_DIR e)
      \<and> sublist (ASSETS_DIR e) m \<and> sublist build_command m"
    by simp
next
  let ?p = "path_join e (ASSETS_DIR e) (c @ ''.js'')"
  assume "existsSync (fs e) (ASSETS_DIR e) \<and> \<not> existsSync (fs e) ?p"
  then have "loadWidgetAssets e c = Inl (Error (widget_js_message c ?p))"
    by (simp add: loadWidgetAssets_def)
  moreover have "sublist ?p (widget_js_message c ?p)"
    unfolding widget_js_message_def by (metis append.assoc sublist_appendI)
  moreover have "sublist build_command (widget_js_message c ?p)"
    unfolding widget_js_message_def by (metis append.assoc sublist_appendI)
  ultimately show "\<exists>m. loadWidgetAssets e c = Inl (Error m)
      \<and> m = widget_js_message c ?p \<and> sublist ?p m \<and> sublist build_command m"
    by simp
next
  let ?p = "path_join e (ASSETS_DIR e) (c @ ''.js'')"
  assume "existsSync (fs e) (ASSETS_DIR e) \<and> fs e ?p = Some (File src)"
  then show "\<exists>a. loadWidgetAssets e c = Inr a \<and> js a = src
      \<and> html a = widget_html c (css a) src"
    by (simp add: loadWidgetAssets_def existsSync_def readFileSync_def Let_def)
qed

theorem loadWidgetAssets_diagnostics_witness:
  "\<not> existsSync (fs (example_env unbuilt_fs)) (ASSETS_DIR (example_env unbuilt_fs))
   \<and> loadWidgetAssets (example_env unbuilt_fs) ''todo'' =
       Inl (Error (''Widget assets not found. Expected directory /app/web/dist. ''
          @ ''Run \"cd web && pnpm run build\" before starting the server.''))
   \<and> existsSync (fs (example_env empty_dist_fs)) (ASSETS_DIR (example_env empty_dist_fs))
   \<and> \<not> existsSync (fs (example_env empty_dist_fs)) ''/app/web/dist/todo.js''
   \<and> loadWidgetAssets (example_env empty_dist_fs) ''todo'' =
       Inl (Error (''Widget JS for \"todo\" not found at /app/web/dist/todo.js. ''
          @ ''Run \"cd web && pnpm run build\" to generate the assets.''))
   \<and> fs (example_env built_fs) ''/app/web/dist/todo.js'' = Some (File ''render()'')
   \<and> loadWidgetAssets (example_env built_fs) ''todo'' =
       Inr \<lparr> js = ''render()'', css = [],
             html = ''<div id=\"todo-root\"></div>'' @ [CHR 0x0A, CHR 0x0A]
               @ ''<script type=\"module\">render()</script>'' \<rparr>"
  using loadWidgetAssets_diagnostics [of "example_env unbuilt_fs" "''todo''"]
    loadWidgetAssets_diagnostics [of "example_env empty_dist_fs" "''todo''"]
    loadWidgetAssets_diagnostics [of "example_env built_fs" "''todo''" "''render()''"]
  by (simp add: example_env_def example_join_def unbuilt_fs_def empty_dist_fs_def
      built_fs_def existsSync_def assets_dir_message_def widget_js_message_def
      build_command_def widget_html_def loadWidgetAssets_def readFileSync_def)

text \<open>
  C9. The port is 8000 when \<open>PORT\<close> is unset and when \<open>Number\<close> of its value is not
  finite; otherwise it is \<open>Number\<close> of the value.
\<close>

theorem port_from_env:
  "port Number None = Finite 8000
   \<and> (\<not> isFinite (Number s) \<longrightarrow> port Number (Some s) = Finite 8000)
   \<and> (isFinite (Number s) \<longrightarrow> port Number (Some s) = Number s)"
  by (simp add: port_def portEnv_def)

theorem port_from_env_witness:
  "\<not> isFinite (example_Number ''eight thousand'')
   \<and> port example_Number (Some ''eight thousand'') = Finite 8000
   \<and> \<not> isFinite (example_Number ''Infinity'')
   \<and> port example_Number (Some ''Infinity'') = Finite 8000
   \<and> isFinite (example_Number ''3000'')
   \<and> port example_Number (Some ''3000'') = Finite 3000"
  using port_from_env [of example_Number "''eight thousand''"]
    port_from_env [of example_Number "''Infinity''"]
    port_from_env [of example_Number "''3000''"]
  by (simp add: example_Number_def)

subsection \<open>The server factory\<close>

text \<open>
  What a call returns when the todo assets load, and when they do not.
\<close>

lemma createServerInstance_loaded:
  assumes "loadWidgetAssets e ''todo'' = Inr a"
  shows "createServerInstance e store =
     (Inr (length store),
      store @
      [\<lparr> serverInfo = (''mcp-app-server'', ''1.0.0''),
         registeredResources =
           [(todoUri, \<lparr> resource_name = ''todo-widget'', resource_metadata = [],
                        readCallback = (\<lambda>_. todo_widget_contents a) \<rparr>)],
         registeredTools =
           [(''show-todo'', show_todo_tool), (''refresh-todos'', refresh_todos_tool),
            (''save-todo-state'', save_todo_state_tool)] \<rparr>])"
  using assms
  by (simp add: createServerInstance_def Let_def new_McpServer_def registerResource_def
      registerTool_def)

lemma createServerInstance_not_loaded:
  assumes "loadWidgetAssets e ''todo'' = Inl err"
  shows "createServerInstance e store =
     (Inl err, store @ [new_McpServer ''mcp-app-server'' ''1.0.0''])"
  using assms by (simp add: createServerInstance_def Let_def)

lemma createServerInstance_handle:
  assumes "fst (createServerInstance e store) = Inr r"
  shows "r = length store \<and> (\<exists>a. loadWidgetAssets e ''todo'' = Inr a)"
proof (cases "loadWidgetAssets e ''todo''")
  case (Inl err)
  with assms show ?thesis by (simp add: createServerInstance_not_loaded)
next
  case (Inr a)
  with assms show ?thesis by (simp add: createServerInstance_loaded)
qed

lemma createServerInstance_store:
  "length (snd (createServerInstance e store)) = Suc (length store)
   \<and> (\<forall>r < length store. snd (createServerInstance e store) ! r = store ! r)"
proof (cases "loadWidgetAssets e ''todo''")
  case (Inl err)
  then show ?thesis by (simp add: createServerInstance_not_loaded nth_append)
next
  case (Inr a)
  then show ?thesis by (simp add: createServerInstance_loaded nth_append)
qed

text \<open>
  C7. For every string \<open>m\<close>, the structured content of the \<open>show-todo\<close> handler has the
  field \<open>message\<close> equal to \<open>m\<close>, in both copies of the handler; the registered
  callback accepts the arguments \<open>{message: m}\<close> and runs the handler on \<open>m\<close> with no
  user id; and on every server that \<open>createServerInstance\<close> returned, calling
  \<open>show-todo\<close> by name with \<open>{message: m}\<close> succeeds with that result.
\<close>

theorem show_todo_echoes_message:
  "map_of (structuredContent (show_todo_handler m u)) ''message'' = Some (JStr m)
   \<and> map_of (structuredContent (show_todo_handler_minimal m)) ''message'' = Some (JStr m)
   \<and> show_todo_callback clock (JObj [(''message'', JStr m)]) = Inr ([], show_todo_handler m None)
   \<and> (fst (createServerInstance e store) = Inr r \<longrightarrow>
        callTool (snd (createServerInstance e store) ! r) ''show-todo'' clock
          (JObj [(''message'', JStr m)]) = Inr ([], show_todo_handler m None))"
proof (intro conjI impI)
  show "map_of (structuredContent (show_todo_handler m u)) ''message'' = Some (JStr m)"
    by (simp add: show_todo_handler_def)
  show "map_of (structuredContent (show_todo_handler_minimal m)) ''message'' = Some (JStr m)"
    by (simp add: show_todo_handler_minimal_def)
  show cb: "show_todo_callback clock (JObj [(''message'', JStr m)])
      = Inr ([], show_todo_handler m None)"
    by (simp add: string_field_def optional_string_field_def)
  assume "fst (createServerInstance e store) = Inr r"
  then obtain a where "r = length store" and "loadWidgetAssets e ''todo'' = Inr a"
    using createServerInstance_handle by blast
  then show "callTool (snd (createServerInstance e store) ! r) ''show-todo'' clock
      (JObj [(''message'', JStr m)]) = Inr ([], show_todo_handler m None)"
    using cb by (simp add: createServerInstance_loaded callTool_def show_todo_tool_def)
qed

theorem show_todo_echoes_message_witness:
  "fst (createServerInstance (example_env built_fs) []) = Inr 0
   \<and> callTool (snd (createServerInstance (example_env built_fs) []) ! 0) ''show-todo''
        (''2024-01-01T00:00:00.000Z'', ''2024-01-01T00:00:00.001Z'')
        (JObj [(''message'', JStr ''hi'')]) = Inr ([], show_todo_handler ''hi'' None)
   \<and> map_of (structuredContent (show_todo_handler ''hi'' None)) ''message'' = Some (JStr ''hi'')"
  using show_todo_echoes_message [of "''hi''" None
      "(''2024-01-01T00:00:00.000Z'', ''2024-01-01T00:00:00.001Z'')"
      "example_env built_fs" "[]" 0]
  by (simp add: createServerInstance_loaded [OF built_assets])

subsection \<open>Posted messages\<close>

lemma paths_distinct: "postPath \<noteq> ssePath"
  by (simp add: postPath_def ssePath_def)

lemma post_dispatch:
  assumes "http_method req = ''POST''" and "url req = Some u" and "pathname u = postPath"
  shows "requestListener e k req w = handlePostMessage k req fresh_response u w"
  using assms by (simp add: requestListener_def paths_distinct)

lemma get_dispatch:
  assumes "http_method req = ''GET''" and "url req = Some u" and "pathname u = ssePath"
  shows "requestListener e k req w = handleSseRequest e k fresh_response w"
  using assms by (simp add: requestListener_def)

lemma handlePostMessage_missing:
  assumes "\<not> headersSent res" and "searchParams_get u ''sessionId'' = None"
  shows "handlePostMessage k req res u w =
     (None,
      end_response ''Missing sessionId query parameter''
        (res\<lparr> statusCode := 400,
              headers := (headers res)(''Access-Control-Allow-Origin'' \<mapsto> ''*'',
                 ''Access-Control-Allow-Headers'' \<mapsto> ''content-type''),
              headersSent := True \<rparr>), w)"
  using assms
  by (simp add: handlePostMessage_def setHeader_def writeHead_end_def writeHead_def)

lemma handlePostMessage_empty:
  assumes "\<not> headersSent res" and "searchParams_get u ''sessionId'' = Some []"
  shows "handlePostMessage k req res u w =
     (None,
      end_response ''Missing sessionId query parameter''
        (res\<lparr> statusCode := 400,
              headers := (headers res)(''Access-Control-Allow-Origin'' \<mapsto> ''*'',
                 ''Access-Control-Allow-Headers'' \<mapsto> ''content-type''),
              headersSent := True \<rparr>), w)"
  using assms
  by (simp add: handlePostMessage_def setHeader_def writeHead_end_def writeHead_def)

lemma handlePostMessage_unknown:
  assumes "\<not> headersSent res" and "searchParams_get u ''sessionId'' = Some sid"
    and "sid \<noteq> []" and "Map_get (sessions w) sid = None"
  shows "handlePostMessage k req res u w =
     (None,
      end_response ''Unknown session''
        (res\<lparr> statusCode := 404,
              headers := (headers res)(''Access-Control-Allow-Origin'' \<mapsto> ''*'',
                 ''Access-Control-Allow-Headers'' \<mapsto> ''content-type''),
              headersSent := True \<rparr>), w)"
  using assms
  by (simp add: handlePostMessage_def setHeader_def writeHead_end_def writeHead_def)

text \<open>
  C2. A POST to the message path whose URL has no \<open>sessionId\<close> parameter is answered
  with status 400 and the body \<open>Missing sessionId query parameter\<close>; the handler returns
  normally and the state, the session table with it, is unchanged.
\<close>

theorem post_without_sessionId:
  assumes "http_method req = ''POST''" and "url req = Some u" and "pathname u = postPath"
    and "searchParams_get u ''sessionId'' = None"
  shows "requestListener e k req w =
           (None,
            \<lparr> statusCode = 400,
              headers = [''Access-Control-Allow-Origin'' \<mapsto> ''*'',
                         ''Access-Control-Allow-Headers'' \<mapsto> ''content-type''],
              headersSent = True, body = ''Missing sessionId query parameter'', finished = True \<rparr>,
            w)"
proof -
  have "requestListener e k req w = handlePostMessage k req fresh_response u w"
    using assms(1-3) by (rule post_dispatch)
  moreover have "\<not> headersSent fresh_response"
    by (simp add: fresh_response_def)
  ultimately show ?thesis
    using assms(4)
    by (simp add: handlePostMessage_missing end_response_def fresh_response_def)
qed

theorem post_without_sessionId_witness:
  "http_method (post_message []) = ''POST''
   \<and> url (post_message []) = Some \<lparr> pathname = postPath, searchParams = [] \<rparr>
   \<and> searchParams_get \<lparr> pathname = postPath, searchParams = [] \<rparr> ''sessionId'' = None
   \<and> requestListener (example_env built_fs) (connecting_sdk ''S1'') (post_message [])
         initial_world =
           (None,
            \<lparr> statusCode = 400,
              headers = [''Access-Control-Allow-Origin'' \<mapsto> ''*'',
                         ''Access-Control-Allow-Headers'' \<mapsto> ''content-type''],
              headersSent = True, body = ''Missing sessionId query parameter'', finished = True \<rparr>,
            initial_world)"
  using post_without_sessionId [of "post_message []"
      "\<lparr> pathname = postPath, searchParams = [] \<rparr>" "example_env built_fs"
      "connecting_sdk ''S1''" initial_world]
  by (simp add: post_message_def searchParams_get_def)

text \<open>
  C3, as stated, fails for an empty \<open>sessionId\<close> parameter: it matches no entry of the
  table, and the answer is 400, not 404.
\<close>

theorem post_empty_sessionId_counterexample:
  "searchParams_get \<lparr> pathname = postPath, searchParams = [(''sessionId'', [])] \<rparr> ''sessionId''
     = Some []
   \<and> Map_get (sessions initial_world) [] = None
   \<and> statusCode (fst (snd (requestListener (example_env built_fs) (connecting_sdk ''S1'')
        (post_message [(''sessionId'', [])]) initial_world))) = 400
   \<and> statusCode (fst (snd (requestListener (example_env built_fs) (connecting_sdk ''S1'')
        (post_message [(''sessionId'', [])]) initial_world))) \<noteq> 404"
  by (simp add: requestListener_def post_message_def paths_distinct handlePostMessage_def
      setHeader_def fresh_response_def searchParams_get_def writeHead_end_def writeHead_def
      end_response_def Map_get_def initial_world_def postPath_def ssePath_def)

text \<open>
  C3, amended. A POST to the message path whose \<open>sessionId\<close> parameter matches no
  entry of the table is answered with status 404 and the body \<open>Unknown session\<close> when
  the parameter is not empty, and with status 400 and the body of a missing parameter when
  it is empty; either way the handler returns normally and the state is unchanged.
\<close>

theorem post_unknown_session:
  assumes "http_method req = ''POST''" and "url req = Some u" and "pathname u = postPath"
    and "searchParams_get u ''sessionId'' = Some sid"
    and "Map_get (sessions w) sid = None"
  shows "requestListener e k req w =
           (None,
            \<lparr> statusCode = (if sid = [] then 400 else 404),
              headers = [''Access-Control-Allow-Origin'' \<mapsto> ''*'',
                         ''Access-Control-Allow-Headers'' \<mapsto> ''content-type''],
              headersSent = True,
              body = (if sid = [] then ''Missing sessionId query parameter''
                      else ''Unknown session''),
              finished = True \<rparr>,
            w)"
proof -
  have routed: "requestListener e k req w = handlePostMessage k req fresh_response u w"
    using assms(1-3) by (rule post_dispatch)
  have unsent: "\<not> headersSent fresh_response"
    by (simp add: fresh_response_def)
  show ?thesis
  proof (cases "sid = []")
    case True
    with assms(4) have "searchParams_get u ''sessionId'' = Some []"
      by simp
    with routed unsent True show ?thesis
      by (simp add: handlePostMessage_empty end_response_def fresh_response_def)
  next
    case False
    with routed unsent assms(4,5) show ?thesis
      by (simp add: handlePostMessage_unknown end_response_def fresh_response_def)
  qed
qed

theorem post_unknown_session_witness:
  "http_method (post_message [(''sessionId'', ''unknown-id'')]) = ''POST''
   \<and> searchParams_get \<lparr> pathname = postPath, searchParams = [(''sessionId'', ''unknown-id'')] \<rparr>
        ''sessionId'' = Some ''unknown-id''
   \<and> Map_get (sessions initial_world) ''unknown-id'' = None
   \<and> requestListener (example_env built_fs) (connecting_sdk ''S1'')
         (post_message [(''sessionId'', ''unknown-id'')]) initial_world =
           (None,
            \<lparr> statusCode = 404,
              headers = [''Access-Control-Allow-Origin'' \<mapsto> ''*'',
                         ''Access-Control-Allow-Headers'' \<mapsto> ''content-type''],
              headersSent = True, body = ''Unknown session'', finished = True \<rparr>,
            initial_world)
   \<and> searchParams_get \<lparr> pathname = postPath, searchParams = [(''sessionId'', [])] \<rparr>
        ''sessionId'' = Some []
   \<and> Map_get (sessions initial_world) [] = None
   \<and> requestListener (example_env built_fs) (connecting_sdk ''S1'')
         (post_message [(''sessionId'', [])]) initial_world =
           (None,
            \<lparr> statusCode = 400,
              headers = [''Access-Control-Allow-Origin'' \<mapsto> ''*'',
                         ''Access-Control-Allow-Headers'' \<mapsto> ''content-type''],
              headersSent = True, body = ''Missing sessionId query parameter'',
              finished = True \<rparr>,
            initial_world)"
  using post_unknown_session [of "post_message [(''sessionId'', ''unknown-id'')]"
      "\<lparr> pathname = postPath, searchParams = [(''sessionId'', ''unknown-id'')] \<rparr>"
      "''unknown-id''" initial_world "example_env built_fs" "connecting_sdk ''S1''"]
    post_unknown_session [of "post_message [(''sessionId'', [])]"
      "\<lparr> pathname = postPath, searchParams = [(''sessionId'', [])] \<rparr>"
      "[]" initial_world "example_env built_fs" "connecting_sdk ''S1''"]
  by (simp add: post_message_def searchParams_get_def Map_get_def initial_world_def)

subsection \<open>Opening a stream\<close>

lemma handleSseRequest_connect_failed:
  assumes "\<not> headersSent res"
    and "loadWidgetAssets e ''todo'' = Inr a"
    and "connect k (res\<lparr> headers := (headers res)(''Access-Control-Allow-Origin'' \<mapsto> ''*'') \<rparr>)
           = (Some err, res2)"
  shows "handleSseRequest e k res w =
     (None,
      (if headersSent res2 then res2
       else end_response ''Failed to establish SSE connection''
              (res2\<lparr> statusCode := 500, headersSent := True \<rparr>)),
      w\<lparr> servers := snd (createServerInstance e (servers w)),
         sessions := (sessions w)(newSessionId k := None),
         console := console w @ [''Failed to start SSE session '' @ message_of err] \<rparr>)"
  using assms
  by (simp add: handleSseRequest_def setHeader_def createServerInstance_loaded Let_def
      Map_set_def Map_delete_def writeHead_end_def writeHead_def)

lemma handleSseRequest_connected:
  assumes "\<not> headersSent res"
    and "loadWidgetAssets e ''todo'' = Inr a"
    and "connect k (res\<lparr> headers := (headers res)(''Access-Control-Allow-Origin'' \<mapsto> ''*'') \<rparr>)
           = (None, res2)"
  shows "handleSseRequest e k res w =
     (None, res2,
      w\<lparr> servers := snd (createServerInstance e (servers w)),
         sessions := (sessions w)(newSessionId k \<mapsto>
           \<lparr> server = length (servers w),
             transport = \<lparr> endpoint = postPath, sessionId = newSessionId k \<rparr> \<rparr>) \<rparr>)"
  using assms
  by (simp add: handleSseRequest_def setHeader_def createServerInstance_loaded Let_def
      Map_set_def)

text \<open>
  C10. When \<open>server.connect\<close> throws during stream-open, the todo assets being loadable
  so that the session was inserted, the handler returns normally; the table no longer has
  the new session id and is the table before the request with that id removed, hence the
  table before the request when the id was new. The answer is status 500 with the body
  \<open>Failed to establish SSE connection\<close> when \<open>connect\<close> had not sent the headers, and the
  response stays as \<open>connect\<close> left it when it had.
\<close>

theorem failed_connect_removes_session:
  assumes "\<not> headersSent res"
    and "existsSync (fs e) (ASSETS_DIR e)"
    and "fs e (path_join e (ASSETS_DIR e) ''todo.js'') = Some (File src)"
    and "connect k (res\<lparr> headers := (headers res)(''Access-Control-Allow-Origin'' \<mapsto> ''*'') \<rparr>)
           = (Some err, res2)"
  shows "fst (handleSseRequest e k res w) = None
    \<and> sessions (snd (snd (handleSseRequest e k res w))) (newSessionId k) = None
    \<and> sessions (snd (snd (handleSseRequest e k res w))) = (sessions w)(newSessionId k := None)
    \<and> (sessions w (newSessionId k) = None \<longrightarrow>
         sessions (snd (snd (handleSseRequest e k res w))) = sessions w)
    \<and> (\<not> headersSent res2 \<longrightarrow>
         fst (snd (handleSseRequest e k res w)) =
           end_response ''Failed to establish SSE connection''
             (res2\<lparr> statusCode := 500, headersSent := True \<rparr>)
         \<and> statusCode (fst (snd (handleSseRequest e k res w))) = 500)
    \<and> (headersSent res2 \<longrightarrow> fst (snd (handleSseRequest e k res w)) = res2)"
proof -
  from assms(2,3) obtain a where a: "loadWidgetAssets e ''todo'' = Inr a"
    using loadWidgetAssets_file [of e "''todo''" src] by auto
  note run = handleSseRequest_connect_failed [OF assms(1) a assms(4), of w]
  have absent: "sessions w (newSessionId k) = None \<Longrightarrow>
      (sessions w)(newSessionId k := None) = sessions w"
    by (rule fun_upd_idem) simp
  show ?thesis
    by (simp add: run end_response_def absent)
qed

theorem failed_connect_removes_session_witness:
  "\<not> headersSent fresh_response
   \<and> existsSync (fs (example_env built_fs)) (ASSETS_DIR (example_env built_fs))
   \<and> fs (example_env built_fs) ''/app/web/dist/todo.js'' = Some (File ''render()'')
   \<and> sessions initial_world ''S1'' = None
   \<and> fst (handleSseRequest (example_env built_fs) (failing_sdk ''S1'') fresh_response
        initial_world) = None
   \<and> sessions (snd (snd (handleSseRequest (example_env built_fs) (failing_sdk ''S1'')
        fresh_response initial_world))) = sessions initial_world
   \<and> statusCode (fst (snd (handleSseRequest (example_env built_fs) (failing_sdk ''S1'')
        fresh_response initial_world))) = 500"
  using failed_connect_removes_session [of fresh_response "example_env built_fs" "''render()''"
      "failing_sdk ''S1''" "Error ''connect failed''"
      "fresh_response\<lparr> headers := (headers fresh_response)(''Access-Control-Allow-Origin'' \<mapsto> ''*'') \<rparr>"
      initial_world]
  by (simp add: fresh_response_def example_env_def example_join_def built_fs_def
      existsSync_def failing_sdk_def initial_world_def end_response_def)

subsection \<open>Closing a stream\<close>

lemma run_snoc: "run e (evs @ [ev]) = step e (run e evs) ev"
  by (simp add: run_def)

lemma opened_stream_sessions:
  "sessions (run (example_env built_fs) [Request (connecting_sdk sid) get_stream])
     = [sid \<mapsto> example_session sid]"
proof -
  have "requestListener (example_env built_fs) (connecting_sdk sid) get_stream initial_world
      = handleSseRequest (example_env built_fs) (connecting_sdk sid) fresh_response initial_world"
    by (rule get_dispatch [where u = "\<lparr> pathname = ssePath, searchParams = [] \<rparr>"])
      (simp_all add: get_stream_def)
  moreover have "\<not> headersSent fresh_response"
    by (simp add: fresh_response_def)
  moreover have "connect (connecting_sdk sid)
      (fresh_response\<lparr> headers := (headers fresh_response)(''Access-Control-Allow-Origin'' \<mapsto> ''*'') \<rparr>)
      = (None, fresh_response\<lparr> headers := (headers fresh_response)(''Access-Control-Allow-Origin'' \<mapsto> ''*''),
           statusCode := 200, headersSent := True \<rparr>)"
    by (simp add: connecting_sdk_def)
  ultimately show ?thesis
    using handleSseRequest_connected [OF _ built_assets, of fresh_response "connecting_sdk sid" _
        initial_world]
    by (simp add: run_def initial_world_def example_session_def connecting_sdk_def)
qed

text \<open>
  C1, as stated, fails for the error callback: after a stream is opened as \<open>S1\<close> and its
  transport reports an error, \<open>S1\<close> is still in the table.
\<close>

theorem error_callback_keeps_session_counterexample:
  "sessions (run (example_env built_fs) [Request (connecting_sdk ''S1'') get_stream]) ''S1''
     = Some (example_session ''S1'')
   \<and> sessions (run (example_env built_fs)
        [Request (connecting_sdk ''S1'') get_stream, TransportError (Error ''write EPIPE'')])
        ''S1'' = Some (example_session ''S1'')"
  using run_snoc [of "example_env built_fs" "[Request (connecting_sdk ''S1'') get_stream]"
      "TransportError (Error ''write EPIPE'')"]
  by (simp add: opened_stream_sessions onerror_def)

text \<open>
  C1, amended, for the callbacks of \<open>server.ts\<close>. The close callback of a session's
  transport removes the session's id from the table and leaves every other entry; the
  error callback only writes to the console and leaves the table as it is; when both fire,
  in either order, the table is the one after the close callback alone; a second close
  changes nothing; and after the close callback a POST with the stale, non-empty id is
  answered 404. The router keeps no connection state besides the table. The close callback
  of the second copy of the server does the same removal and then hands the state to
  \<open>server.close()\<close>; nothing is said of what that call leaves.
\<close>

theorem close_callback_teardown:
  "sessions (onclose sid w) sid = None
   \<and> (\<forall>other. other \<noteq> sid \<longrightarrow> sessions (onclose sid w) other = sessions w other)
   \<and> sessions (onerror err w) = sessions w
   \<and> sessions (onclose sid (onerror err w)) = sessions (onclose sid w)
   \<and> sessions (onerror err (onclose sid w)) = sessions (onclose sid w)
   \<and> onclose sid (onclose sid w) = onclose sid w
   \<and> (http_method req = ''POST'' \<and> url req = Some u \<and> pathname u = postPath
        \<and> searchParams_get u ''sessionId'' = Some sid \<and> sid \<noteq> [] \<longrightarrow>
       requestListener e k req (onclose sid w) =
         (None,
          \<lparr> statusCode = 404,
            headers = [''Access-Control-Allow-Origin'' \<mapsto> ''*'',
                       ''Access-Control-Allow-Headers'' \<mapsto> ''content-type''],
            headersSent = True, body = ''Unknown session'', finished = True \<rparr>,
          onclose sid w))
   \<and> onclose_closing_server server_close sid w = server_close (onclose sid w)"
proof (intro conjI allI impI)
  show "sessions (onclose sid w) sid = None"
    by (simp add: onclose_def Map_delete_def)
  show "sessions (onclose sid w) other = sessions w other" if "other \<noteq> sid" for other
    using that by (simp add: onclose_def Map_delete_def)
  show "sessions (onerror err w) = sessions w"
    by (simp add: onerror_def)
  show "sessions (onclose sid (onerror err w)) = sessions (onclose sid w)"
    by (simp add: onclose_def onerror_def)
  show "sessions (onerror err (onclose sid w)) = sessions (onclose sid w)"
    by (simp add: onclose_def onerror_def)
  show "onclose sid (onclose sid w) = onclose sid w"
    by (simp add: onclose_def Map_delete_def)
  show "onclose_closing_server server_close sid w = server_close (onclose sid w)"
    by (simp add: onclose_closing_server_def onclose_def)
next
  assume h: "http_method req = ''POST'' \<and> url req = Some u \<and> pathname u = postPath
      \<and> searchParams_get u ''sessionId'' = Some sid \<and> sid \<noteq> []"
  have gone: "Map_get (sessions (onclose sid w)) sid = None"
    by (simp add: Map_get_def onclose_def Map_delete_def)
  have "requestListener e k req (onclose sid w)
      = handlePostMessage k req fresh_response u (onclose sid w)"
    using h by (simp add: post_dispatch)
  moreover have "\<not> headersSent fresh_response"
    by (simp add: fresh_response_def)
  ultimately show "requestListener e k req (onclose sid w) =
      (None,
       \<lparr> statusCode = 404,
         headers = [''Access-Control-Allow-Origin'' \<mapsto> ''*'',
                    ''Access-Control-Allow-Headers'' \<mapsto> ''content-type''],
         headersSent = True, body = ''Unknown session'', finished = True \<rparr>,
       onclose sid w)"
    using h gone
    by (simp add: handlePostMessage_unknown end_response_def fresh_response_def)
qed

theorem close_callback_teardown_witness:
  "sessions (run (example_env built_fs) [Request (connecting_sdk ''S1'') get_stream]) ''S1''
     = Some (example_session ''S1'')
   \<and> sessions (onclose ''S1''
        (run (example_env built_fs) [Request (connecting_sdk ''S1'') get_stream])) ''S1'' = None
   \<and> http_method (post_message [(''sessionId'', ''S1'')]) = ''POST''
   \<and> searchParams_get \<lparr> pathname = postPath, searchParams = [(''sessionId'', ''S1'')] \<rparr>
        ''sessionId'' = Some ''S1''
   \<and> requestListener (example_env built_fs) (connecting_sdk ''S2'')
        (post_message [(''sessionId'', ''S1'')])
        (onclose ''S1'' (run (example_env built_fs) [Request (connecting_sdk ''S1'') get_stream]))
      = (None,
         \<lparr> statusCode = 404,
           headers = [''Access-Control-Allow-Origin'' \<mapsto> ''*'',
                      ''Access-Control-Allow-Headers'' \<mapsto> ''content-type''],
           headersSent = True, body = ''Unknown session'', finished = True \<rparr>,
         onclose ''S1'' (run (example_env built_fs) [Request (connecting_sdk ''S1'') get_stream]))"
  using close_callback_teardown [of "''S1''"
      "run (example_env built_fs) [Request (connecting_sdk ''S1'') get_stream]"
      "Error ''write EPIPE''" "post_message [(''sessionId'', ''S1'')]"
      "\<lparr> pathname = postPath, searchParams = [(''sessionId'', ''S1'')] \<rparr>"
      "example_env built_fs" "connecting_sdk ''S2''"]
  by (simp add: opened_stream_sessions post_message_def searchParams_get_def)

subsection \<open>Servers and sessions\<close>

text \<open>
  Handlers change the store only by allocating, and the table only at the id of the
  request; so every handle in the table stays allocated.
\<close>

lemma writeHead_end_world: "snd (snd (writeHead_end code chunk res w)) = w"
  by (simp add: writeHead_end_def split: sum.splits)

lemma handlePostMessage_world:
  "sessions (snd (snd (handlePostMessage k req res u w))) = sessions w
   \<and> servers (snd (snd (handlePostMessage k req res u w))) = servers w"
  by (simp add: handlePostMessage_def writeHead_end_world Let_def
      split: sum.splits option.splits prod.splits)

lemma handleSseRequest_world:
  "(servers (snd (snd (handleSseRequest e k res w))) = servers w
      \<and> sessions (snd (snd (handleSseRequest e k res w))) = sessions w)
   \<or> (servers (snd (snd (handleSseRequest e k res w))) = snd (createServerInstance e (servers w))
      \<and> (sessions (snd (snd (handleSseRequest e k res w))) = sessions w
          \<or> sessions (snd (snd (handleSseRequest e k res w))) = (sessions w)(newSessionId k := None)
          \<or> sessions (snd (snd (handleSseRequest e k res w))) =
               (sessions w)(newSessionId k \<mapsto>
                 \<lparr> server = length (servers w),
                   transport = \<lparr> endpoint = postPath, sessionId = newSessionId k \<rparr> \<rparr>)))"
proof (cases "setHeader ''Access-Control-Allow-Origin'' ''*'' res")
  case (Inl err)
  then show ?thesis by (simp add: handleSseRequest_def)
next
  case (Inr res1)
  show ?thesis
  proof (cases "loadWidgetAssets e ''todo''")
    case (Inl err)
    with Inr show ?thesis
      by (simp add: handleSseRequest_def createServerInstance_not_loaded)
  next
    case a: (Inr a)
    show ?thesis
    proof (cases "connect k res1")
      case (Pair thrown res2)
      with Inr a show ?thesis
        by (cases thrown)
          (simp_all add: handleSseRequest_def createServerInstance_loaded Let_def Map_set_def
            Map_delete_def writeHead_end_world writeHead_end_def split: sum.splits)
    qed
  qed
qed

lemma handleSseRequest_handles_allocated:
  assumes "handles_allocated w"
  shows "handles_allocated (snd (snd (handleSseRequest e k res w)))"
proof -
  let ?w' = "snd (snd (handleSseRequest e k res w))"
  have len: "length (snd (createServerInstance e (servers w))) = Suc (length (servers w))"
    using createServerInstance_store by blast
  from handleSseRequest_world [of e k res w] assms len show ?thesis
    unfolding handles_allocated_def
    by (elim disjE conjE) (auto split: if_splits simp: less_Suc_eq)
qed

lemma step_handles_allocated:
  assumes "handles_allocated w"
  shows "handles_allocated (step e w ev)"
proof (cases ev)
  case (Request k req)
  have "handles_allocated (snd (snd (requestListener e k req w)))"
  proof (cases "url req")
    case None
    with assms show ?thesis by (simp add: requestListener_def writeHead_end_world)
  next
    case (Some u)
    with assms show ?thesis
      using handleSseRequest_handles_allocated [OF assms, of e k fresh_response]
        handlePostMessage_world [of k req fresh_response u w]
      by (auto simp add: requestListener_def writeHead_end_world handles_allocated_def
          split: sum.splits)
  qed
  with Request show ?thesis by simp
next
  case (TransportClose sid)
  with assms show ?thesis
    by (auto simp add: handles_allocated_def onclose_def Map_delete_def split: if_splits)
next
  case (TransportError err)
  with assms show ?thesis
    by (simp add: handles_allocated_def onerror_def)
qed

lemma run_handles_allocated: "handles_allocated (run e evs)"
proof (induction evs rule: rev_induct)
  case Nil
  show ?case by (simp add: run_def handles_allocated_def initial_world_def)
next
  case (snoc ev evs)
  then show ?case by (simp add: run_snoc step_handles_allocated)
qed

lemma step_servers_kept:
  assumes "r < length (servers w)"
  shows "r < length (servers (step e w ev)) \<and> servers (step e w ev) ! r = servers w ! r"
proof (cases ev)
  case (Request k req)
  have grown: "length (snd (createServerInstance e (servers w))) = Suc (length (servers w))"
    and same: "snd (createServerInstance e (servers w)) ! r = servers w ! r"
    using createServerInstance_store [of e "servers w"] assms by simp_all
  have "r < length (servers (snd (snd (requestListener e k req w))))
      \<and> servers (snd (snd (requestListener e k req w))) ! r = servers w ! r"
  proof (cases "url req")
    case None
    with assms show ?thesis by (simp add: requestListener_def writeHead_end_world)
  next
    case (Some u)
    with assms grown same show ?thesis
      using handleSseRequest_world [of e k fresh_response w]
        handlePostMessage_world [of k req fresh_response u w]
      by (auto simp add: requestListener_def writeHead_end_world split: sum.splits)
  qed
  with Request show ?thesis by simp
next
  case (TransportClose sid)
  with assms show ?thesis by (simp add: onclose_def)
next
  case (TransportError err)
  with assms show ?thesis by (simp add: onerror_def)
qed

lemma later_handle_differs:
  assumes "length store < length store2"
  shows "fst (createServerInstance e2 store2) \<noteq> Inr (length store)"
  using assms createServerInstance_handle [of e2 store2 "length store"] by auto

lemma opened_stream_servers:
  "servers (run (example_env built_fs) [Request (connecting_sdk sid) get_stream])
     = snd (createServerInstance (example_env built_fs) [])"
proof -
  have "requestListener (example_env built_fs) (connecting_sdk sid) get_stream initial_world
      = handleSseRequest (example_env built_fs) (connecting_sdk sid) fresh_response initial_world"
    by (rule get_dispatch [where u = "\<lparr> pathname = ssePath, searchParams = [] \<rparr>"])
      (simp_all add: get_stream_def)
  moreover have "\<not> headersSent fresh_response"
    by (simp add: fresh_response_def)
  moreover have "connect (connecting_sdk sid)
      (fresh_response\<lparr> headers := (headers fresh_response)(''Access-Control-Allow-Origin'' \<mapsto> ''*'') \<rparr>)
      = (None, fresh_response\<lparr> headers := (headers fresh_response)(''Access-Control-Allow-Origin'' \<mapsto> ''*''),
           statusCode := 200, headersSent := True \<rparr>)"
    by (simp add: connecting_sdk_def)
  ultimately show ?thesis
    using handleSseRequest_connected [OF _ built_assets, of fresh_response "connecting_sdk sid" _
        initial_world]
    by (simp add: run_def initial_world_def)
qed

text \<open>
  C6, as stated, fails when the build output is missing: the call throws the asset
  loader's error and returns no server, and the stream-open handler throws with it.
\<close>

theorem createServerInstance_throws_counterexample:
  "fst (createServerInstance (example_env unbuilt_fs) []) =
     Inl (Error (''Widget assets not found. Expected directory /app/web/dist. ''
        @ ''Run \"cd web && pnpm run build\" before starting the server.''))
   \<and> fst (handleSseRequest (example_env unbuilt_fs) (connecting_sdk ''S1'') fresh_response
        initial_world) =
     Some (Error (''Widget assets not found. Expected directory /app/web/dist. ''
        @ ''Run \"cd web && pnpm run build\" before starting the server.''))"
proof -
  have "loadWidgetAssets (example_env unbuilt_fs) ''todo'' =
      Inl (Error (''Widget assets not found. Expected directory /app/web/dist. ''
        @ ''Run \"cd web && pnpm run build\" before starting the server.''))"
    by (simp add: loadWidgetAssets_def example_env_def unbuilt_fs_def existsSync_def
        assets_dir_message_def build_command_def)
  then show ?thesis
    by (simp add: createServerInstance_not_loaded handleSseRequest_def setHeader_def
        fresh_response_def)
qed

text \<open>
  C6, amended. When the asset loader throws, the call throws the same error and returns
  no server. When the todo bundle is loadable, a call returns the handle of a newly
  allocated server: the next index of the store, with every older object left as it was.
  The new server holds the three tools and the todo resource, whose read callback answers
  the markup of the loaded assets. A second call returns a different handle and leaves the
  first server as it was, and so does any later change of the second server; no call on a
  store that already holds the server returns its handle again, and no event of the
  process changes a server the store already holds. In every state the process can reach,
  a stream-open whose \<open>connect\<close> succeeds stores the new handle under the new session id,
  and no other session of the table has that handle.
\<close>

theorem createServerInstance_fresh:
  "(\<forall>err. loadWidgetAssets e ''todo'' = Inl err \<longrightarrow>
      fst (createServerInstance e store) = Inl err)
   \<and> (existsSync (fs e) (ASSETS_DIR e)
      \<and> fs e (path_join e (ASSETS_DIR e) ''todo.js'') = Some (File src) \<longrightarrow>
    fst (createServerInstance e store) = Inr (length store)
    \<and> length (snd (createServerInstance e store)) = Suc (length store)
    \<and> (\<forall>r < length store. snd (createServerInstance e store) ! r = store ! r)
    \<and> registeredTools (snd (createServerInstance e store) ! length store) =
        [(''show-todo'', show_todo_tool), (''refresh-todos'', refresh_todos_tool),
         (''save-todo-state'', save_todo_state_tool)]
    \<and> map fst (registeredResources (snd (createServerInstance e store) ! length store)) =
        [todoUri]
    \<and> (\<forall>a. loadWidgetAssets e ''todo'' = Inr a \<longrightarrow>
         map (\<lambda>entry. readCallback (snd entry) ())
           (registeredResources (snd (createServerInstance e store) ! length store)) =
         [todo_widget_contents a])
    \<and> fst (createServerInstance e (snd (createServerInstance e store))) = Inr (Suc (length store))
    \<and> snd (createServerInstance e (snd (createServerInstance e store))) ! length store =
        snd (createServerInstance e store) ! length store
    \<and> (\<forall>changed.
         (snd (createServerInstance e (snd (createServerInstance e store))))
           [Suc (length store) := changed] ! length store =
         snd (createServerInstance e store) ! length store)
    \<and> (\<forall>e2 store2. length store < length store2 \<longrightarrow>
          fst (createServerInstance e2 store2) \<noteq> Inr (length store))
    \<and> (\<forall>e2 w ev. length store < length (servers w) \<longrightarrow>
          servers (step e2 w ev) ! length store = servers w ! length store)
    \<and> (\<not> headersSent res
        \<and> connect k (res\<lparr> headers := (headers res)(''Access-Control-Allow-Origin'' \<mapsto> ''*'') \<rparr>)
            = (None, res2) \<longrightarrow>
        sessions (snd (snd (handleSseRequest e k res (run e' evs)))) (newSessionId k) =
          Some \<lparr> server = length (servers (run e' evs)),
                 transport = \<lparr> endpoint = postPath, sessionId = newSessionId k \<rparr> \<rparr>
        \<and> (\<forall>other s. other \<noteq> newSessionId k
              \<and> sessions (snd (snd (handleSseRequest e k res (run e' evs)))) other = Some s \<longrightarrow>
              server s \<noteq> length (servers (run e' evs)))))"
  (is "?throws \<and> (?loadable \<longrightarrow> ?fresh)")
proof (rule conjI)
  show ?throws
    by (simp add: createServerInstance_not_loaded)
next
  show "?loadable \<longrightarrow> ?fresh"
  proof (rule impI)
    assume loadable: ?loadable
    then obtain a where a: "loadWidgetAssets e ''todo'' = Inr a"
      using loadWidgetAssets_file [of e "''todo''" src] by auto
    note created = createServerInstance_loaded [OF a]
    have first: "fst (createServerInstance e store) = Inr (length store)"
      by (simp add: created)
    have len: "length (snd (createServerInstance e store)) = Suc (length store)"
      by (simp add: created)
    have kept: "\<forall>r < length store. snd (createServerInstance e store) ! r = store ! r"
      by (simp add: created nth_append)
    have tools: "registeredTools (snd (createServerInstance e store) ! length store) =
        [(''show-todo'', show_todo_tool), (''refresh-todos'', refresh_todos_tool),
         (''save-todo-state'', save_todo_state_tool)]"
      by (simp add: created)
    have uris: "map fst (registeredResources (snd (createServerInstance e store) ! length store))
        = [todoUri]"
      by (simp add: created)
    have reads: "\<forall>b. loadWidgetAssets e ''todo'' = Inr b \<longrightarrow>
        map (\<lambda>entry. readCallback (snd entry) ())
          (registeredResources (snd (createServerInstance e store) ! length store)) =
        [todo_widget_contents b]"
      by (simp add: created a)
    have second: "fst (createServerInstance e (snd (createServerInstance e store)))
        = Inr (Suc (length store))"
      by (simp add: created)
    have untouched: "snd (createServerInstance e (snd (createServerInstance e store))) ! length store
        = snd (createServerInstance e store) ! length store"
      by (simp add: created nth_append)
    have separate: "\<forall>changed.
        (snd (createServerInstance e (snd (createServerInstance e store))))
          [Suc (length store) := changed] ! length store =
        snd (createServerInstance e store) ! length store"
      by (simp add: created nth_append)
    have later: "\<forall>e2 store2. length store < length store2 \<longrightarrow>
        fst (createServerInstance e2 store2) \<noteq> Inr (length store)"
      using later_handle_differs by blast
    have stable: "\<forall>e2 w ev. length store < length (servers w) \<longrightarrow>
        servers (step e2 w ev) ! length store = servers w ! length store"
      using step_servers_kept by blast
    have bound: "sessions (snd (snd (handleSseRequest e k res (run e' evs)))) (newSessionId k) =
          Some \<lparr> server = length (servers (run e' evs)),
                 transport = \<lparr> endpoint = postPath, sessionId = newSessionId k \<rparr> \<rparr>
        \<and> (\<forall>other s. other \<noteq> newSessionId k
              \<and> sessions (snd (snd (handleSseRequest e k res (run e' evs)))) other = Some s \<longrightarrow>
              server s \<noteq> length (servers (run e' evs)))"
      if opened: "\<not> headersSent res
        \<and> connect k (res\<lparr> headers := (headers res)(''Access-Control-Allow-Origin'' \<mapsto> ''*'') \<rparr>)
            = (None, res2)"
    proof -
      have inv: "handles_allocated (run e' evs)"
        by (rule run_handles_allocated)
      from opened have served: "handleSseRequest e k res (run e' evs) =
          (None, res2,
           (run e' evs)\<lparr> servers := snd (createServerInstance e (servers (run e' evs))),
             sessions := (sessions (run e' evs))(newSessionId k \<mapsto>
               \<lparr> server = length (servers (run e' evs)),
                 transport = \<lparr> endpoint = postPath, sessionId = newSessionId k \<rparr> \<rparr>) \<rparr>)"
        using handleSseRequest_connected [OF _ a, of res k res2 "run e' evs"] by simp
      from inv show ?thesis
        unfolding served handles_allocated_def by fastforce
    qed
    from first len kept tools uris reads second untouched separate later stable bound
    show ?fresh
      by blast
  qed
qed

theorem createServerInstance_fresh_witness:
  "loadWidgetAssets (example_env unbuilt_fs) ''todo'' =
     Inl (Error (assets_dir_message ''/app/web/dist''))
   \<and> fst (createServerInstance (example_env unbuilt_fs) []) =
     Inl (Error (assets_dir_message ''/app/web/dist''))
   \<and> existsSync (fs (example_env built_fs)) (ASSETS_DIR (example_env built_fs))
   \<and> fs (example_env built_fs) ''/app/web/dist/todo.js'' = Some (File ''render()'')
   \<and> fst (createServerInstance (example_env built_fs) []) = Inr 0
   \<and> map fst (registeredTools (snd (createServerInstance (example_env built_fs) []) ! 0)) =
       [''show-todo'', ''refresh-todos'', ''save-todo-state'']
   \<and> map fst (registeredResources (snd (createServerInstance (example_env built_fs) []) ! 0)) =
       [''ui://widget/todo.html'']
   \<and> fst (createServerInstance (example_env built_fs)
        (snd (createServerInstance (example_env built_fs) []))) = Inr 1
   \<and> \<not> headersSent fresh_response
   \<and> fst (handleSseRequest (example_env built_fs) (connecting_sdk ''S2'') fresh_response
        (run (example_env built_fs) [Request (connecting_sdk ''S1'') get_stream])) = None
   \<and> map_option server
        (sessions (snd (snd (handleSseRequest (example_env built_fs) (connecting_sdk ''S2'')
          fresh_response (run (example_env built_fs) [Request (connecting_sdk ''S1'') get_stream]))))
          ''S2'') = Some 1
   \<and> map_option server
        (sessions (snd (snd (handleSseRequest (example_env built_fs) (connecting_sdk ''S2'')
          fresh_response (run (example_env built_fs) [Request (connecting_sdk ''S1'') get_stream]))))
          ''S1'') = Some 0"
proof -
  let ?e = "example_env built_fs"
  let ?w = "run ?e [Request (connecting_sdk ''S1'') get_stream]"
  let ?res1 = "fresh_response\<lparr> headers := (headers fresh_response)(''Access-Control-Allow-Origin'' \<mapsto> ''*'') \<rparr>"
  have fresh: "\<not> headersSent fresh_response"
    by (simp add: fresh_response_def)
  have conn: "connect (connecting_sdk ''S2'') ?res1
      = (None, ?res1\<lparr> statusCode := 200, headersSent := True \<rparr>)"
    by (simp add: connecting_sdk_def)
  have exists: "existsSync (fs ?e) (ASSETS_DIR ?e)"
    by (simp add: example_env_def built_fs_def existsSync_def)
  have js_file: "fs ?e (path_join ?e (ASSETS_DIR ?e) ''todo.js'') = Some (File ''render()'')"
    by (simp add: example_env_def built_fs_def example_join_def)
  have js_path: "fs ?e ''/app/web/dist/todo.js'' = Some (File ''render()'')"
    by (simp add: example_env_def built_fs_def)
  have len: "length (servers ?w) = 1"
    by (simp add: opened_stream_servers createServerInstance_loaded [OF built_assets])
  have served: "handleSseRequest ?e (connecting_sdk ''S2'') fresh_response ?w =
      (None, ?res1\<lparr> statusCode := 200, headersSent := True \<rparr>,
       ?w\<lparr> servers := snd (createServerInstance ?e (servers ?w)),
          sessions := (sessions ?w)(newSessionId (connecting_sdk ''S2'') \<mapsto>
            \<lparr> server = length (servers ?w),
              transport = \<lparr> endpoint = postPath,
                            sessionId = newSessionId (connecting_sdk ''S2'') \<rparr> \<rparr>) \<rparr>)"
    by (rule handleSseRequest_connected [OF fresh built_assets conn])
  have sid2: "newSessionId (connecting_sdk ''S2'') = ''S2''"
    by (simp add: connecting_sdk_def)
  have s1: "map_option server (sessions (snd (snd (handleSseRequest ?e (connecting_sdk ''S2'')
      fresh_response ?w))) ''S1'') = Some 0"
    by (simp add: served sid2 opened_stream_sessions example_session_def)
  have unbuilt: "loadWidgetAssets (example_env unbuilt_fs) ''todo'' =
      Inl (Error (assets_dir_message ''/app/web/dist''))"
    by (simp add: loadWidgetAssets_def example_env_def unbuilt_fs_def existsSync_def)
  from createServerInstance_fresh [of "example_env unbuilt_fs" "[]"] unbuilt
  have thrown: "fst (createServerInstance (example_env unbuilt_fs) []) =
      Inl (Error (assets_dir_message ''/app/web/dist''))"
    by simp
  from createServerInstance_fresh [of ?e "[]" "''render()''" fresh_response
      "connecting_sdk ''S2''" "?res1\<lparr> statusCode := 200, headersSent := True \<rparr>"
      ?e "[Request (connecting_sdk ''S1'') get_stream]"]
    fresh conn len s1 exists js_file js_path unbuilt thrown
  show ?thesis
    by (simp add: served sid2 todoUri_def)
qed

end
